theory Spec2Isabelle
  imports Main "HOL-Library.AList"
begin

section \<open>The package descriptor of dragonn (setup.py)\<close>

text \<open>
  The module \<^verbatim>\<open>setup.py\<close> binds one dictionary literal, \<^verbatim>\<open>config\<close>, and hands it to
  \<^verbatim>\<open>setuptools.setup\<close> when the module runs as the main program. The development
  embeds the dictionary as Python has it (string keys, values that are booleans,
  strings, lists and nested dictionaries), the execution of the module's three
  statements as explicit state passing, and the readings of the literal strings
  (requirement specifiers, archive links, entry points) that the properties of the
  descriptor are stated with.
\<close>

subsection \<open>Python values\<close>

text \<open>
  Only the kinds of value that occur in the module: \<^verbatim>\<open>True\<close>, string literals, list
  literals, dictionary literals with string keys, and the two objects imported from
  setuptools, which the module never inspects (\<open>PExt\<close> carries their qualified name).
  A dictionary is an association list in insertion order without repeated keys.
\<close>

datatype pyval =
    PBool bool
  | PStr string
  | PList "pyval list"
  | PDict "(string \<times> pyval) list"
  | PExt string

type_synonym pydict = "(string \<times> pyval) list"

datatype py_error = NameError string | TypeError

text \<open>
  \<^verbatim>\<open>d[k] = v\<close>: an existing key keeps its position and takes the new value, a new key
  goes to the end. This is \<open>AList.update\<close>.
\<close>

definition setitem :: "string \<Rightarrow> pyval \<Rightarrow> pydict \<Rightarrow> pydict" where
  "setitem k v d = AList.update k v d"

text \<open>\<^verbatim>\<open>d.get(k)\<close>: the value stored under a key, or nothing.\<close>

definition getitem :: "pydict \<Rightarrow> string \<Rightarrow> pyval option" where
  "getitem d k = map_of d k"

text \<open>
  A dictionary display \<^verbatim>\<open>{k1: v1, ..., kn: vn}\<close> stores its items from left to right,
  so a key written twice would keep its first position and its last value.
\<close>

definition dict_display :: "(string \<times> pyval) list \<Rightarrow> pydict" where
  "dict_display items = foldl (\<lambda>d (k, v). setitem k v d) [] items"

subsection \<open>The literal\<close>

text \<open>Lines 3 to 17 of the module, item by item and in the order written.\<close>

definition config_items :: "(string \<times> pyval) list" where
  "config_items =
    [(''include_package_data'', PBool True),
     (''description'', PStr ''Deep RegulAtory GenOmic Neural Networks (DragoNN)''),
     (''download_url'', PStr ''https://github.com/kundajelab/dragonn''),
     (''version'', PStr ''0.2''),
     (''packages'', PList [PStr ''dragonn'']),
     (''setup_requires'', PList []),
     (''install_requires'',
        PList [PStr ''numpy>=1.9'', PStr ''keras>=2.2.0'', PStr ''tensorflow>=1.6'',
               PStr ''deeplift'', PStr ''shapely'', PStr ''simdna==0.3'',
               PStr ''matplotlib'', PStr ''scikit-learn'', PStr ''pydot_ng==1.0.0'',
               PStr ''h5py'']),
     (''extras_requires'',
        PDict [(''tensorflow with gpu'', PList [PStr ''tensorflow-gpu>=1.7''])]),
     (''dependency_links'',
        PList [PStr ''https://github.com/kundajelab/simdna/tarball/0.3#egg=simdna-0.3'']),
     (''scripts'', PList []),
     (''entry_points'',
        PDict [(''console_scripts'', PList [PStr ''dragonn = dragonn.__main__:main''])]),
     (''name'', PStr ''dragonn'')]"

definition config :: pydict where
  "config = dict_display config_items"

subsection \<open>Reading fields\<close>

text \<open>
  A field that holds a string, a list of strings, or a dictionary from labels to lists
  of strings; anything else, or a missing key, reads as \<open>None\<close>.
\<close>

fun as_str :: "pyval \<Rightarrow> string option" where
  "as_str (PStr s) = Some s"
| "as_str _ = None"

fun as_strs :: "pyval list \<Rightarrow> string list option" where
  "as_strs [] = Some []"
| "as_strs (v # vs) =
     (case as_str v of
        None \<Rightarrow> None
      | Some s \<Rightarrow> (case as_strs vs of None \<Rightarrow> None | Some ss \<Rightarrow> Some (s # ss)))"

fun as_str_list :: "pyval \<Rightarrow> string list option" where
  "as_str_list (PList vs) = as_strs vs"
| "as_str_list _ = None"

fun as_groups :: "(string \<times> pyval) list \<Rightarrow> (string \<times> string list) list option" where
  "as_groups [] = Some []"
| "as_groups ((k, v) # kvs) =
     (case as_str_list v of
        None \<Rightarrow> None
      | Some ss \<Rightarrow> (case as_groups kvs of None \<Rightarrow> None | Some gs \<Rightarrow> Some ((k, ss) # gs)))"

fun as_group_dict :: "pyval \<Rightarrow> (string \<times> string list) list option" where
  "as_group_dict (PDict kvs) = as_groups kvs"
| "as_group_dict _ = None"

definition str_field :: "pydict \<Rightarrow> string \<Rightarrow> string option" where
  "str_field d k = (case getitem d k of None \<Rightarrow> None | Some v \<Rightarrow> as_str v)"

definition list_field :: "pydict \<Rightarrow> string \<Rightarrow> string list option" where
  "list_field d k = (case getitem d k of None \<Rightarrow> None | Some v \<Rightarrow> as_str_list v)"

definition group_field :: "pydict \<Rightarrow> string \<Rightarrow> (string \<times> string list) list option" where
  "group_field d k = (case getitem d k of None \<Rightarrow> None | Some v \<Rightarrow> as_group_dict v)"

subsection \<open>Requirement specifiers\<close>

text \<open>
  A dependency specifier is a name paired with an optional version constraint. The
  name is the longest prefix of letters, digits, hyphens, underscores and dots; what
  follows is nothing, \<^verbatim>\<open>>=\<close> and a version, \<^verbatim>\<open>==\<close> and a version, or something
  else, which is kept as it is.
\<close>

datatype constraint =
    Unconstrained
  | AtLeast string
  | Exactly string
  | OtherConstraint string

definition name_chars :: string where
  "name_chars =
     ''abcdefghijklmnopqrstuvwxyzABCDEFGHIJKLMNOPQRSTUVWXYZ0123456789-_.''"

definition is_name_char :: "char \<Rightarrow> bool" where
  "is_name_char c = (c \<in> set name_chars)"

definition read_constraint :: "string \<Rightarrow> constraint" where
  "read_constraint r =
     (if r = [] then Unconstrained
      else if take 2 r = ''>='' then AtLeast (drop 2 r)
      else if take 2 r = ''=='' then Exactly (drop 2 r)
      else OtherConstraint r)"

definition read_requirement :: "string \<Rightarrow> string \<times> constraint" where
  "read_requirement s =
     (takeWhile is_name_char s, read_constraint (dropWhile is_name_char s))"

definition required :: "pydict \<Rightarrow> (string \<times> constraint) list option" where
  "required d = map_option (map read_requirement) (list_field d ''install_requires'')"

definition required_names :: "pydict \<Rightarrow> string list" where
  "required_names d = (case required d of None \<Rightarrow> [] | Some rs \<Rightarrow> map fst rs)"

fun pins :: "(string \<times> constraint) list \<Rightarrow> (string \<times> string) list" where
  "pins [] = []"
| "pins ((n, Exactly v) # rs) = (n, v) # pins rs"
| "pins (_ # rs) = pins rs"

definition exact_pins :: "pydict \<Rightarrow> (string \<times> string) list" where
  "exact_pins d = (case required d of None \<Rightarrow> [] | Some rs \<Rightarrow> pins rs)"

subsection \<open>Archive links\<close>

text \<open>
  A dependency link names what it provides in its fragment, \<^verbatim>\<open>#egg=<name>-<version>\<close>;
  the version starts after the last hyphen.
\<close>

fun after_marker :: "string \<Rightarrow> string \<Rightarrow> string option" where
  "after_marker m [] = (if m = [] then Some [] else None)"
| "after_marker m (c # cs) =
     (if take (length m) (c # cs) = m then Some (drop (length m) (c # cs))
      else after_marker m cs)"

definition split_last :: "char \<Rightarrow> string \<Rightarrow> (string \<times> string) option" where
  "split_last d s =
     (case dropWhile (\<lambda>c. c \<noteq> d) (rev s) of
        [] \<Rightarrow> None
      | _ # l \<Rightarrow> Some (rev l, rev (takeWhile (\<lambda>c. c \<noteq> d) (rev s))))"

definition link_target :: "string \<Rightarrow> (string \<times> string) option" where
  "link_target url =
     (case after_marker ''#egg='' url of
        None \<Rightarrow> None
      | Some egg \<Rightarrow> split_last CHR ''-'' egg)"

definition link_targets :: "pydict \<Rightarrow> (string \<times> string) option list option" where
  "link_targets d = map_option (map link_target) (list_field d ''dependency_links'')"

definition linked_pairs :: "pydict \<Rightarrow> (string \<times> string) list" where
  "linked_pairs d =
     (case link_targets d of None \<Rightarrow> [] | Some ts \<Rightarrow> List.map_filter (\<lambda>t. t) ts)"

subsection \<open>Entry points\<close>

text \<open>
  A console script is written \<^verbatim>\<open>name = module:callable\<close>: the command's name is what
  stands before the first equals sign and the target what stands after it, both
  without the surrounding blanks. The target has the form \<^verbatim>\<open><module>:<callable>\<close>
  when one colon separates a dotted path of identifiers from a dotted path of
  identifiers.
\<close>

definition strip :: "string \<Rightarrow> string" where
  "strip s =
     rev (dropWhile (\<lambda>c. c = CHR '' '') (rev (dropWhile (\<lambda>c. c = CHR '' '') s)))"

definition read_entry_point :: "string \<Rightarrow> (string \<times> string) option" where
  "read_entry_point s =
     (case dropWhile (\<lambda>c. c \<noteq> CHR ''='') s of
        [] \<Rightarrow> None
      | _ # t \<Rightarrow> Some (strip (takeWhile (\<lambda>c. c \<noteq> CHR ''='') s), strip t))"

fun split_on :: "char \<Rightarrow> string \<Rightarrow> string list" where
  "split_on d [] = [[]]"
| "split_on d (c # cs) =
     (if c = d then [] # split_on d cs
      else (case split_on d cs of [] \<Rightarrow> [[c]] | w # ws \<Rightarrow> (c # w) # ws))"

definition ident_chars :: string where
  "ident_chars =
     ''abcdefghijklmnopqrstuvwxyzABCDEFGHIJKLMNOPQRSTUVWXYZ_0123456789''"

definition is_identifier :: "string \<Rightarrow> bool" where
  "is_identifier s =
     (case s of
        [] \<Rightarrow> False
      | c # cs \<Rightarrow> c \<in> set (take 53 ident_chars) \<and> list_all (\<lambda>x. x \<in> set ident_chars) cs)"

definition dotted_path :: "string \<Rightarrow> bool" where
  "dotted_path s = list_all is_identifier (split_on CHR ''.'' s)"

definition module_callable_form :: "string \<Rightarrow> bool" where
  "module_callable_form t =
     (case split_on CHR '':'' t of
        [m, c] \<Rightarrow> dotted_path m \<and> dotted_path c
      | _ \<Rightarrow> False)"

definition console_commands :: "pydict \<Rightarrow> (string \<times> string) option list option" where
  "console_commands d =
     (case group_field d ''entry_points'' of
        None \<Rightarrow> None
      | Some gs \<Rightarrow> map_option (map read_entry_point) (map_of gs ''console_scripts''))"

subsection \<open>Changing the version\<close>

text \<open>
  Modelled from the spec: the module never changes its version, so the replacement the
  specification speaks of is Python's item assignment \<^verbatim>\<open>config['version'] = v\<close>, on a
  descriptor \<open>d\<close>.
\<close>

definition set_version :: "string \<Rightarrow> pydict \<Rightarrow> pydict" where
  "set_version v d = setitem ''version'' (PStr v) d"

subsection \<open>Executing the module\<close>

text \<open>
  The state of an execution: the module's namespace, the calls of \<^verbatim>\<open>setup\<close> made so
  far (each with the keyword arguments it received), and whatever lies outside the
  process and an installation can change. What \<^verbatim>\<open>setuptools.setup\<close> does to the
  outside is not in this module, so it is a parameter \<open>setup_fn\<close>, and the import of
  line 1 is taken to find setuptools.
\<close>

record 'w state =
  globals :: pydict
  invocations :: "pydict list"
  external :: 'w

text \<open>Line 1: \<^verbatim>\<open>from setuptools import setup,find_packages\<close>.\<close>

definition import_from_setuptools :: "'w state \<Rightarrow> 'w state" where
  "import_from_setuptools s =
     s\<lparr>globals :=
         setitem ''find_packages'' (PExt ''setuptools.find_packages'')
           (setitem ''setup'' (PExt ''setuptools.setup'') (globals s))\<rparr>"

text \<open>Lines 3 to 17: \<^verbatim>\<open>config = {...}\<close>.\<close>

definition assign_config :: "'w state \<Rightarrow> 'w state" where
  "assign_config s = s\<lparr>globals := setitem ''config'' (PDict config) (globals s)\<rparr>"

definition lookup_name :: "'w state \<Rightarrow> string \<Rightarrow> py_error + pyval" where
  "lookup_name s x =
     (case getitem (globals s) x of None \<Rightarrow> Inl (NameError x) | Some v \<Rightarrow> Inr v)"

text \<open>
  Line 20: \<^verbatim>\<open>setup(**config)\<close>. The callee is looked up first, then the dictionary
  that is unpacked into keyword arguments.
\<close>

definition call_setup :: "(pydict \<Rightarrow> 'w \<Rightarrow> 'w) \<Rightarrow> 'w state \<Rightarrow> py_error + 'w state" where
  "call_setup setup_fn s =
     (case lookup_name s ''setup'' of
        Inl e \<Rightarrow> Inl e
      | Inr f \<Rightarrow>
          (case lookup_name s ''config'' of
             Inl e \<Rightarrow> Inl e
           | Inr (PDict kw) \<Rightarrow>
               if f = PExt ''setuptools.setup''
               then Inr (s\<lparr>invocations := invocations s @ [kw],
                           external := setup_fn kw (external s)\<rparr>)
               else Inl TypeError
           | Inr _ \<Rightarrow> Inl TypeError))"

text \<open>Lines 19 and 20: \<^verbatim>\<open>if __name__== '__main__': setup(**config)\<close>.\<close>

definition main_guard :: "(pydict \<Rightarrow> 'w \<Rightarrow> 'w) \<Rightarrow> 'w state \<Rightarrow> py_error + 'w state" where
  "main_guard setup_fn s =
     (case lookup_name s ''__name__'' of
        Inl e \<Rightarrow> Inl e
      | Inr v \<Rightarrow> if v = PStr ''__main__'' then call_setup setup_fn s else Inr s)"

text \<open>
  The whole module, run under the module name \<open>name\<close> (\<^verbatim>\<open>__main__\<close> for the main
  program, the import name otherwise) with the outside in state \<open>w\<close>.
\<close>

definition exec_module :: "(pydict \<Rightarrow> 'w \<Rightarrow> 'w) \<Rightarrow> string \<Rightarrow> 'w \<Rightarrow> py_error + 'w state" where
  "exec_module setup_fn name w =
     main_guard setup_fn
       (assign_config
          (import_from_setuptools
             \<lparr>globals = [(''__name__'', PStr name)], invocations = [], external = w\<rparr>))"

text \<open>The descriptor an execution leaves bound to \<^verbatim>\<open>config\<close>.\<close>

definition built_descriptor :: "(pydict \<Rightarrow> 'w \<Rightarrow> 'w) \<Rightarrow> string \<Rightarrow> 'w \<Rightarrow> pyval option" where
  "built_descriptor setup_fn name w =
     (case exec_module setup_fn name w of
        Inl _ \<Rightarrow> None
      | Inr s \<Rightarrow> getitem (globals s) ''config'')"

section \<open>Properties\<close>

subsection \<open>The display evaluates to its items\<close>

text \<open>
  Storing under a key that is not there appends the item, so a display whose keys are
  all different denotes its items as they are listed; a key written twice keeps its
  place and takes the later value.
\<close>

lemma setitem_fresh: "k \<notin> fst ` set d \<Longrightarrow> setitem k v d = d @ [(k, v)]"
  by (induction d) (auto simp: setitem_def)

lemma foldl_setitem_distinct:
  "distinct (map fst (acc @ items)) \<Longrightarrow>
     foldl (\<lambda>d (k, v). setitem k v d) acc items = acc @ items"
proof (induction items arbitrary: acc)
  case Nil
  then show ?case by simp
next
  case (Cons kv items)
  obtain k v where kv: "kv = (k, v)" by (cases kv)
  from Cons.prems have fresh: "k \<notin> fst ` set acc"
    by (auto simp: kv)
  from Cons.prems have "distinct (map fst ((acc @ [(k, v)]) @ items))"
    by (simp add: kv)
  then have "foldl (\<lambda>d (k, v). setitem k v d) (acc @ [(k, v)]) items =
      (acc @ [(k, v)]) @ items"
    by (rule Cons.IH)
  then show ?case
    by (simp add: kv setitem_fresh [OF fresh])
qed

lemma dict_display_distinct: "distinct (map fst items) \<Longrightarrow> dict_display items = items"
  using foldl_setitem_distinct [of "[]" items] by (simp add: dict_display_def)

lemma dict_display_last_wins:
  "dict_display [(''a'', PBool True), (''b'', PBool True), (''a'', PBool False)] =
     [(''a'', PBool False), (''b'', PBool True)]"
  by (simp add: dict_display_def setitem_def)

lemma config_keys_distinct: "distinct (map fst config_items)"
  by (simp add: config_items_def)

lemma config_value: "config = config_items"
  unfolding config_def by (rule dict_display_distinct [OF config_keys_distinct])

lemma name_field: "str_field config ''name'' = Some ''dragonn''"
  by (simp add: config_value config_items_def str_field_def getitem_def)

lemma version_field: "str_field config ''version'' = Some ''0.2''"
  by (simp add: config_value config_items_def str_field_def getitem_def)

lemma install_requires_field:
  "list_field config ''install_requires'' =
     Some [''numpy>=1.9'', ''keras>=2.2.0'', ''tensorflow>=1.6'', ''deeplift'', ''shapely'',
           ''simdna==0.3'', ''matplotlib'', ''scikit-learn'', ''pydot_ng==1.0.0'', ''h5py'']"
  by (simp add: config_value config_items_def list_field_def getitem_def)

lemma extras_field:
  "group_field config ''extras_requires'' =
     Some [(''tensorflow with gpu'', [''tensorflow-gpu>=1.7''])]"
  by (simp add: config_value config_items_def group_field_def getitem_def)

lemma links_field:
  "list_field config ''dependency_links'' =
     Some [''https://github.com/kundajelab/simdna/tarball/0.3#egg=simdna-0.3'']"
  by (simp add: config_value config_items_def list_field_def getitem_def)

lemma entry_points_field:
  "group_field config ''entry_points'' =
     Some [(''console_scripts'', [''dragonn = dragonn.__main__:main''])]"
  by (simp add: config_value config_items_def group_field_def getitem_def)

lemma no_extras_require: "getitem config ''extras_require'' = None"
  by (simp add: config_value config_items_def getitem_def)

subsection \<open>Reading the literal strings\<close>

lemma required_config:
  "required config =
     Some [(''numpy'', AtLeast ''1.9''), (''keras'', AtLeast ''2.2.0''),
           (''tensorflow'', AtLeast ''1.6''), (''deeplift'', Unconstrained),
           (''shapely'', Unconstrained), (''simdna'', Exactly ''0.3''),
           (''matplotlib'', Unconstrained), (''scikit-learn'', Unconstrained),
           (''pydot_ng'', Exactly ''1.0.0''), (''h5py'', Unconstrained)]"
  by (simp add: required_def install_requires_field read_requirement_def read_constraint_def
        is_name_char_def name_chars_def)

lemma required_names_config:
  "required_names config =
     [''numpy'', ''keras'', ''tensorflow'', ''deeplift'', ''shapely'', ''simdna'',
      ''matplotlib'', ''scikit-learn'', ''pydot_ng'', ''h5py'']"
  by (simp add: required_names_def required_config)

lemma distinct_required_names: "distinct (required_names config)"
  by (simp add: required_names_config)

lemma exact_pins_config:
  "exact_pins config = [(''simdna'', ''0.3''), (''pydot_ng'', ''1.0.0'')]"
  by (simp add: exact_pins_def required_config)

lemma link_target_simdna:
  "link_target ''https://github.com/kundajelab/simdna/tarball/0.3#egg=simdna-0.3'' =
     Some (''simdna'', ''0.3'')"
  by (simp add: link_target_def split_last_def)

lemma link_targets_config: "link_targets config = Some [Some (''simdna'', ''0.3'')]"
  by (simp add: link_targets_def links_field link_target_simdna)

lemma linked_pairs_config: "linked_pairs config = [(''simdna'', ''0.3'')]"
  by (simp add: linked_pairs_def link_targets_config List.map_filter_simps)

lemma read_dragonn_entry:
  "read_entry_point ''dragonn = dragonn.__main__:main'' =
     Some (''dragonn'', ''dragonn.__main__:main'')"
  by (simp add: read_entry_point_def strip_def)

lemma dragonn_target_form: "module_callable_form ''dragonn.__main__:main''"
  by (simp add: module_callable_form_def dotted_path_def is_identifier_def ident_chars_def)

subsection \<open>Running the module\<close>

text \<open>
  The module always runs to its end. It leaves four names bound, and it has called
  \<^verbatim>\<open>setup\<close> once with the descriptor when its name was \<^verbatim>\<open>__main__\<close>, and not at all
  otherwise.
\<close>

lemma exec_module_result:
  "exec_module setup_fn name w =
     Inr \<lparr>globals = [(''__name__'', PStr name), (''setup'', PExt ''setuptools.setup''),
                      (''find_packages'', PExt ''setuptools.find_packages''),
                      (''config'', PDict config)],
          invocations = (if name = ''__main__'' then [config] else []),
          external = (if name = ''__main__'' then setup_fn config w else w)\<rparr>"
  by (simp add: exec_module_def main_guard_def call_setup_def lookup_name_def
        assign_config_def import_from_setuptools_def setitem_def getitem_def)

lemma getitem_set_version:
  "getitem (set_version v d) k = (if k = ''version'' then Some (PStr v) else getitem d k)"
  by (simp add: set_version_def setitem_def getitem_def update_conv')

subsection \<open>The dependency fields\<close>

text \<open>
  C1. The required dependencies are exactly ten specifiers, in this order: numpy with
  a minimum version, keras with a minimum version, tensorflow with a minimum version,
  deeplift and shapely unconstrained, simdna at an exact version, matplotlib and
  scikit-learn unconstrained, pydot_ng at an exact version, h5py unconstrained.
\<close>

theorem required_dependency_shapes:
  "required config =
     Some [(''numpy'', AtLeast ''1.9''), (''keras'', AtLeast ''2.2.0''),
           (''tensorflow'', AtLeast ''1.6''), (''deeplift'', Unconstrained),
           (''shapely'', Unconstrained), (''simdna'', Exactly ''0.3''),
           (''matplotlib'', Unconstrained), (''scikit-learn'', Unconstrained),
           (''pydot_ng'', Exactly ''1.0.0''), (''h5py'', Unconstrained)]
   \<and> length (required_names config) = 10"
  by (simp add: required_config required_names_config)

text \<open>
  C2. The optional dependency groups, which the module stores under the key
  \<^verbatim>\<open>extras_requires\<close>, are one group whose value is the one specifier
  \<^verbatim>\<open>tensorflow-gpu>=1.7\<close>: the GPU variant of tensorflow with a minimum version.
\<close>

theorem one_optional_group:
  "group_field config ''extras_requires'' =
     Some [(''tensorflow with gpu'', [''tensorflow-gpu>=1.7''])]
   \<and> read_requirement ''tensorflow-gpu>=1.7'' = (''tensorflow-gpu'', AtLeast ''1.7'')"
  by (simp add: extras_field read_requirement_def read_constraint_def
        is_name_char_def name_chars_def)

text \<open>
  C3. There is exactly one dependency link, and it provides simdna at version 0.3.
  Every name and version a link provides is pinned to that exact version among the
  required dependencies, and the pin of simdna is provided by the link.
\<close>

theorem link_resolves_simdna_pin:
  "link_targets config = Some [Some (''simdna'', ''0.3'')]
   \<and> linked_pairs config = [(''simdna'', ''0.3'')]
   \<and> set (linked_pairs config) \<subseteq> set (exact_pins config)
   \<and> filter (\<lambda>p. fst p = ''simdna'') (exact_pins config) = linked_pairs config"
  by (simp add: link_targets_config linked_pairs_config exact_pins_config)

text \<open>
  C5. The names at two different positions of the required dependencies are
  different.
\<close>

theorem required_names_differ:
  "i < length (required_names config) \<Longrightarrow> j < length (required_names config) \<Longrightarrow>
     i \<noteq> j \<Longrightarrow> required_names config ! i \<noteq> required_names config ! j"
  using distinct_required_names by (simp add: nth_eq_iff_index_eq)

theorem required_names_differ_witness:
  "(0::nat) < length (required_names config) \<and> (1::nat) < length (required_names config)
   \<and> (0::nat) \<noteq> 1 \<and> required_names config ! 0 \<noteq> required_names config ! 1"
proof -
  have l: "length (required_names config) = 10"
    by (simp add: required_names_config)
  have a: "(0::nat) < length (required_names config)"
    using l by simp
  have b: "(1::nat) < length (required_names config)"
    using l by simp
  have c: "(0::nat) \<noteq> 1"
    by simp
  show ?thesis
    using a b c required_names_differ [OF a b c] by simp
qed

text \<open>
  C6. The optional group is stored under \<^verbatim>\<open>extras_requires\<close>. The descriptor has no
  key \<^verbatim>\<open>extras_require\<close>: looking it up finds nothing, and the keyword arguments that
  \<^verbatim>\<open>setup\<close> receives from the main program have none either.
\<close>

theorem extras_key_not_recognized:
  "getitem config ''extras_require'' = None
   \<and> group_field config ''extras_require'' = None
   \<and> ''extras_require'' \<notin> set (map fst config)
   \<and> group_field config ''extras_requires'' =
       Some [(''tensorflow with gpu'', [''tensorflow-gpu>=1.7''])]
   \<and> (\<exists>s. exec_module setup_fn ''__main__'' w = Inr s
          \<and> map (\<lambda>kw. getitem kw ''extras_require'') (invocations s) = [None])"
proof -
  have "''extras_require'' \<notin> set (map fst config)"
    by (simp add: config_value config_items_def)
  moreover have "group_field config ''extras_require'' = None"
    by (simp add: group_field_def no_extras_require)
  ultimately show ?thesis
    by (simp add: no_extras_require extras_field exec_module_result)
qed

subsection \<open>The entry point\<close>

text \<open>
  C4. The entry points are one group with one console command. The command's name,
  \<^verbatim>\<open>dragonn\<close>, is not empty, and its target \<^verbatim>\<open>dragonn.__main__:main\<close> is one module
  path, one colon and one callable name.
\<close>

theorem one_console_command:
  "group_field config ''entry_points'' =
     Some [(''console_scripts'', [''dragonn = dragonn.__main__:main''])]
   \<and> console_commands config = Some [Some (''dragonn'', ''dragonn.__main__:main'')]
   \<and> ''dragonn'' \<noteq> []
   \<and> split_on CHR '':'' ''dragonn.__main__:main'' = [''dragonn.__main__'', ''main'']
   \<and> module_callable_form ''dragonn.__main__:main''"
  by (simp add: entry_points_field console_commands_def read_dragonn_entry
        dragonn_target_form)

subsection \<open>Identity\<close>

text \<open>
  C9. The descriptor has a name and a version, both strings and neither empty.
\<close>

theorem name_and_version_nonempty:
  "(\<exists>n v. str_field config ''name'' = Some n \<and> n \<noteq> [] \<and>
          str_field config ''version'' = Some v \<and> v \<noteq> [])"
  by (simp add: name_field version_field)

text \<open>
  C8. Storing any version string \<open>v\<close> in the descriptor changes the version to \<open>v\<close>
  and nothing else: the required dependencies, the optional groups, the dependency
  links, the setup requirements and the value under every other key stay as they
  were.
\<close>

theorem version_change_frame:
  "str_field (set_version v config) ''version'' = Some v
   \<and> required (set_version v config) = required config
   \<and> group_field (set_version v config) ''extras_requires'' =
       group_field config ''extras_requires''
   \<and> link_targets (set_version v config) = link_targets config
   \<and> list_field (set_version v config) ''setup_requires'' =
       list_field config ''setup_requires''
   \<and> (\<forall>k. k \<noteq> ''version'' \<longrightarrow> getitem (set_version v config) k = getitem config k)"
  by (simp add: str_field_def required_def link_targets_def list_field_def group_field_def
        getitem_set_version)

theorem version_change_frame_witness:
  "''install_requires'' \<noteq> ''version''
   \<and> str_field (set_version ''0.3'' config) ''version'' = Some ''0.3''
   \<and> getitem (set_version ''0.3'' config) ''install_requires'' =
       getitem config ''install_requires''"
  using version_change_frame [of "''0.3''"] by simp

subsection \<open>Executions of the module\<close>

text \<open>
  C7. Building the descriptor is deterministic. Whatever the module name, the state of
  the outside and the behaviour of \<^verbatim>\<open>setup\<close>, an execution binds \<^verbatim>\<open>config\<close> to the
  same dictionary, the one the literal denotes; so two executions agree on it.
\<close>

theorem build_deterministic:
  "built_descriptor setup_fn name w = Some (PDict config)
   \<and> built_descriptor setup_fn' name' w' = built_descriptor setup_fn name w"
  by (simp add: built_descriptor_def exec_module_result getitem_def)

text \<open>
  C10. Running the module builds the descriptor and binds it to \<^verbatim>\<open>config\<close>. It calls
  \<^verbatim>\<open>setup\<close> exactly when the module's name is \<^verbatim>\<open>__main__\<close>: then once, with the
  descriptor, so that the outside is what that one call of \<^verbatim>\<open>setup\<close> makes of it.
  Under any other name, as when the module is imported, \<^verbatim>\<open>setup\<close> is not called and
  the outside is left as it was.
\<close>

theorem setup_only_as_main:
  "\<exists>s. exec_module setup_fn name w = Inr s
      \<and> (invocations s = [config] \<longleftrightarrow> name = ''__main__'')
      \<and> (invocations s = [] \<longleftrightarrow> name \<noteq> ''__main__'')
      \<and> (name = ''__main__'' \<longrightarrow> external s = setup_fn config w)
      \<and> (name \<noteq> ''__main__'' \<longrightarrow> external s = w)
      \<and> globals s = [(''__name__'', PStr name), (''setup'', PExt ''setuptools.setup''),
                      (''find_packages'', PExt ''setuptools.find_packages''),
                      (''config'', PDict config)]
      \<and> getitem (globals s) ''config'' = Some (PDict config)"
  by (simp add: exec_module_result getitem_def)

theorem setup_only_as_main_witness:
  "''dragonn_setup'' \<noteq> ''__main__''
   \<and> (\<exists>s. exec_module (\<lambda>kw n. Suc n) ''dragonn_setup'' (0::nat) = Inr s
          \<and> invocations s = [] \<and> external s = 0)
   \<and> (\<exists>s. exec_module (\<lambda>kw n. Suc n) ''__main__'' (0::nat) = Inr s
          \<and> invocations s = [config] \<and> external s = 1)"
  using setup_only_as_main [of "\<lambda>kw n. Suc n" "''dragonn_setup''" "0::nat"]
        setup_only_as_main [of "\<lambda>kw n. Suc n" "''__main__''" "0::nat"]
  by auto

end
